theory Spec2Isabelle
  imports Main "HOL-Library.Word"
begin

section \<open>Workout backend (backend/server.py)\<close>

text \<open>
  A shallow embedding of the request handlers of \<^verbatim>\<open>backend/server.py\<close>.
  The collection \<^verbatim>\<open>db.workouts\<close> is a list of stored documents in insertion order
  and is passed through every handler explicitly. Python strings are kept as their UTF-8
  bytes. The two readings of the environment a handler makes, \<^verbatim>\<open>datetime.utcnow()\<close>
  and the identifier the driver generates for an inserted document, are arguments of the
  handler.
\<close>

subsection \<open>Models\<close>

type_synonym datetime = int

text \<open>
  The integer of an exercise is a parameter of the records: a Python \<^verbatim>\<open>int\<close> in a
  request, in a response and in the dictionaries a handler works on, a signed 64-bit
  integer in a stored document.
\<close>

record 'i Exercise =
  ex_name :: string
  ex_sets :: 'i
  ex_reps :: string
  ex_weight :: "string option"
  ex_notes :: "string option"

record 'i WorkoutSplit =
  day :: string
  exercises :: "'i Exercise list"

text \<open>\<^verbatim>\<open>Literal["predefined", "custom"]\<close>\<close>

datatype workout_type = predefined | custom

record Workout =
  w_id :: "string option"
  w_name :: string
  w_type :: workout_type
  w_splits :: "int WorkoutSplit list"
  w_createdAt :: "datetime option"

record WorkoutCreate =
  c_name :: string
  c_type :: workout_type
  c_splits :: "int WorkoutSplit list"

record WorkoutUpdate =
  u_name :: "string option"
  u_splits :: "int WorkoutSplit list option"

subsection \<open>Exceptions and their HTTP status\<close>

text \<open>
  \<open>Str e\<close> stands for \<^verbatim>\<open>str(e)\<close>, the detail the catch-all handlers put into
  their 400 response.
\<close>

datatype exn =
    HTTPException nat detail
  | InvalidId string
  | OverflowError
  | DuplicateKeyError
  | BulkWriteError
  | RequestValidationError
and detail = Text string | Str exn

text \<open>
  What the framework answers: 200 for a returned value, the status of an
  \<^verbatim>\<open>HTTPException\<close>, 422 for a body the request model rejects, 500 for any other
  exception that leaves the handler.
\<close>

fun status_code :: "exn + 'a \<Rightarrow> nat" where
  "status_code (Inr _) = 200"
| "status_code (Inl (HTTPException c _)) = c"
| "status_code (Inl RequestValidationError) = 422"
| "status_code (Inl _) = 500"

subsection \<open>Identifiers\<close>

text \<open>
  An \<^verbatim>\<open>ObjectId\<close> is 12 bytes, kept here as its 24 hexadecimal digits (each below 16).
\<close>

type_synonym ObjectId = "nat list"

definition hex_value :: "char \<Rightarrow> nat option" where
  "hex_value c =
     (if c \<in> set ''0123456789'' then Some (of_char c - 48)
      else if c \<in> set ''abcdef'' then Some (of_char c - 87)
      else if c \<in> set ''ABCDEF'' then Some (of_char c - 55)
      else None)"

definition hex_digit :: "nat \<Rightarrow> char" where
  "hex_digit n = ''0123456789abcdef'' ! n"

text \<open>
  Modelled from the spec: \<^verbatim>\<open>bson.ObjectId\<close> is a library class and is not in the
  repository. An identifier is a 24-character hexadecimal string; the constructor raises
  \<^verbatim>\<open>InvalidId\<close> on any other string.
\<close>

definition ObjectId :: "string \<Rightarrow> exn + ObjectId" where
  "ObjectId s =
     (if length s = 24 \<and> (\<forall>c \<in> set s. hex_value c \<noteq> None)
      then Inr (map (\<lambda>c. the (hex_value c)) s)
      else Inl (InvalidId s))"

text \<open>\<^verbatim>\<open>str(oid)\<close>: the 24 lower-case hexadecimal digits.\<close>

definition str_oid :: "ObjectId \<Rightarrow> string" where
  "str_oid oid = map hex_digit oid"

definition valid_oid :: "ObjectId \<Rightarrow> bool" where
  "valid_oid oid \<longleftrightarrow> length oid = 24 \<and> (\<forall>n \<in> set oid. n < 16)"

subsection \<open>Documents and their stored form\<close>

text \<open>
  The dictionary a handler builds for insertion, and the document: the same fields with
  the \<^verbatim>\<open>_id\<close> the store keys it by. Over \<^typ>\<open>int\<close> they are the Python
  dictionaries the driver takes and returns, over 64-bit words the documents the store
  holds.
\<close>

record 'i workout_dict =
  d_name :: string
  d_type :: workout_type
  d_splits :: "'i WorkoutSplit list"
  d_createdAt :: datetime

record 'i document = "'i workout_dict" +
  doc_id :: ObjectId

type_synonym int64 = "64 word"

type_synonym collection = "int64 document list"

text \<open>
  The driver writes a Python \<^verbatim>\<open>int\<close> as a signed integer of at most 8 bytes and raises
  \<^verbatim>\<open>OverflowError\<close> for any other; the only integers of a document are the
  \<^verbatim>\<open>sets\<close> of its exercises.
\<close>

definition bson_int :: "int \<Rightarrow> bool" where
  "bson_int i \<longleftrightarrow> - (2 ^ 63) \<le> i \<and> i < 2 ^ 63"

definition bson_encodable :: "int WorkoutSplit list \<Rightarrow> bool" where
  "bson_encodable splits =
     list_all (\<lambda>s. list_all (\<lambda>e. bson_int (ex_sets e)) (exercises s)) splits"

definition map_sets :: "('i \<Rightarrow> 'j) \<Rightarrow> 'i WorkoutSplit list \<Rightarrow> 'j WorkoutSplit list" where
  "map_sets f splits =
     map (\<lambda>s. \<lparr>day = day s,
                exercises = map (\<lambda>e. \<lparr>ex_name = ex_name e, ex_sets = f (ex_sets e),
                                       ex_reps = ex_reps e, ex_weight = ex_weight e,
                                       ex_notes = ex_notes e\<rparr>) (exercises s)\<rparr>) splits"

definition bson_encode :: "int document \<Rightarrow> int64 document" where
  "bson_encode d =
     \<lparr>d_name = d_name d, d_type = d_type d, d_splits = map_sets word_of_int (d_splits d),
      d_createdAt = d_createdAt d, doc_id = doc_id d\<rparr>"

definition bson_decode :: "int64 document \<Rightarrow> int document" where
  "bson_decode d =
     \<lparr>d_name = d_name d, d_type = d_type d, d_splits = map_sets sint (d_splits d),
      d_createdAt = d_createdAt d, doc_id = doc_id d\<rparr>"

subsection \<open>The collection\<close>

definition by_id :: "ObjectId \<Rightarrow> 'i document \<Rightarrow> bool" where
  "by_id oid d \<longleftrightarrow> doc_id d = oid"

definition by_type :: "workout_type \<Rightarrow> 'i document \<Rightarrow> bool" where
  "by_type t d \<longleftrightarrow> d_type d = t"

text \<open>\<^verbatim>\<open>find_one\<close> returns the first stored document that matches, decoded.\<close>

definition find_one :: "(int64 document \<Rightarrow> bool) \<Rightarrow> collection \<Rightarrow> int document option" where
  "find_one q db = map_option bson_decode (List.find q db)"

definition count_documents :: "(int64 document \<Rightarrow> bool) \<Rightarrow> collection \<Rightarrow> nat" where
  "count_documents q db = length (filter q db)"

text \<open>
  \<^verbatim>\<open>insert_one\<close>: the driver gives the dictionary the identifier \<open>oid\<close> and encodes it;
  the store refuses a second document with a stored \<^verbatim>\<open>_id\<close>.
\<close>

definition with_id :: "ObjectId \<Rightarrow> 'i workout_dict \<Rightarrow> 'i document" where
  "with_id oid wd =
     \<lparr>d_name = d_name wd, d_type = d_type wd, d_splits = d_splits wd,
      d_createdAt = d_createdAt wd, doc_id = oid\<rparr>"

definition insert_one :: "ObjectId \<Rightarrow> int workout_dict \<Rightarrow> collection \<Rightarrow> exn + collection" where
  "insert_one oid wd db =
     (if \<not> bson_encodable (d_splits wd) then Inl OverflowError
      else if oid \<in> set (map doc_id db) then Inl DuplicateKeyError
      else Inr (db @ [bson_encode (with_id oid wd)]))"

text \<open>
  \<^verbatim>\<open>insert_many\<close> (ordered): the driver encodes the whole batch before it sends
  anything; the store then inserts one document after the other and stops at the first
  one it refuses, and the documents inserted before it stay.
\<close>

fun insert_each :: "(ObjectId \<times> int workout_dict) list \<Rightarrow> collection \<Rightarrow> exn option \<times> collection" where
  "insert_each [] db = (None, db)"
| "insert_each ((oid, wd) # rest) db =
     (case insert_one oid wd db of
        Inl e \<Rightarrow> (Some BulkWriteError, db)
      | Inr db' \<Rightarrow> insert_each rest db')"

definition insert_many :: "(ObjectId \<times> int workout_dict) list \<Rightarrow> collection \<Rightarrow> exn option \<times> collection" where
  "insert_many docs db =
     (if \<not> list_all (\<lambda>(oid, wd). bson_encodable (d_splits wd)) docs then (Some OverflowError, db)
      else insert_each docs db)"

text \<open>The entries of the \<^verbatim>\<open>$set\<close> dictionary of an update, and their encoding.\<close>

datatype 'i update_field = SetName string | SetSplits "'i WorkoutSplit list"

fun field_encodable :: "int update_field \<Rightarrow> bool" where
  "field_encodable (SetName n) = True"
| "field_encodable (SetSplits s) = bson_encodable s"

fun encode_field :: "int update_field \<Rightarrow> int64 update_field" where
  "encode_field (SetName n) = SetName n"
| "encode_field (SetSplits s) = SetSplits (map_sets word_of_int s)"

fun set_field :: "'i update_field \<Rightarrow> 'i document \<Rightarrow> 'i document" where
  "set_field (SetName n) d = d\<lparr>d_name := n\<rparr>"
| "set_field (SetSplits s) d = d\<lparr>d_splits := s\<rparr>"

text \<open>
  \<^verbatim>\<open>update_one\<close> and \<^verbatim>\<open>delete_one\<close> act on the first document that matches the
  filter and report how many documents they matched. \<^verbatim>\<open>update_one\<close> encodes the
  \<^verbatim>\<open>$set\<close> dictionary before it sends anything.
\<close>

fun update_first ::
  "(int64 document \<Rightarrow> bool) \<Rightarrow> (int64 document \<Rightarrow> int64 document) \<Rightarrow> collection \<Rightarrow> collection" where
  "update_first q f [] = []"
| "update_first q f (d # ds) = (if q d then f d # ds else d # update_first q f ds)"

fun delete_first :: "(int64 document \<Rightarrow> bool) \<Rightarrow> collection \<Rightarrow> collection" where
  "delete_first q [] = []"
| "delete_first q (d # ds) = (if q d then ds else d # delete_first q ds)"

definition matched :: "(int64 document \<Rightarrow> bool) \<Rightarrow> collection \<Rightarrow> nat" where
  "matched q db = (case List.find q db of None \<Rightarrow> 0 | Some _ \<Rightarrow> 1)"

definition update_one ::
  "(int64 document \<Rightarrow> bool) \<Rightarrow> int update_field list \<Rightarrow> collection \<Rightarrow> exn + nat \<times> collection" where
  "update_one q update_data db =
     (if \<not> list_all field_encodable update_data then Inl OverflowError
      else Inr (matched q db,
                update_first q (\<lambda>d. fold set_field (map encode_field update_data) d) db))"

definition delete_one :: "(int64 document \<Rightarrow> bool) \<Rightarrow> collection \<Rightarrow> nat \<times> collection" where
  "delete_one q db = (matched q db, delete_first q db)"

subsection \<open>Serialisation\<close>

fun serialize_workout :: "int document option \<Rightarrow> Workout option" where
  "serialize_workout None = None"
| "serialize_workout (Some workout) =
     Some \<lparr>w_id = Some (str_oid (doc_id workout)), w_name = d_name workout,
           w_type = d_type workout, w_splits = d_splits workout,
           w_createdAt = Some (d_createdAt workout)\<rparr>"

subsection \<open>Request validation\<close>

text \<open>
  The JSON body of \<^verbatim>\<open>POST /workouts\<close> before the framework validates it against
  \<^verbatim>\<open>WorkoutCreate\<close>. A required field of the workout may be missing, and
  \<^verbatim>\<open>type\<close> is any string. An optional field of a split or an exercise is absent,
  \<^verbatim>\<open>null\<close> or given.
\<close>

datatype 'a json_field = Absent | Null | Given 'a

record Exercise_body =
  eb_name :: string
  eb_sets :: int
  eb_reps :: string
  eb_weight :: "string json_field"
  eb_notes :: "string json_field"

record WorkoutSplit_body =
  sb_day :: string
  sb_exercises :: "Exercise_body list json_field"

record request_body =
  b_name :: "string option"
  b_type :: "string option"
  b_splits :: "WorkoutSplit_body list option"

definition Literal_type :: "string \<Rightarrow> workout_type option" where
  "Literal_type s =
     (if s = ''predefined'' then Some predefined
      else if s = ''custom'' then Some custom
      else None)"

text \<open>\<^verbatim>\<open>Optional[str] = ""\<close>: the empty string when absent, \<^verbatim>\<open>None\<close> for \<^verbatim>\<open>null\<close>.\<close>

fun optional_str :: "string json_field \<Rightarrow> string option" where
  "optional_str Absent = Some []"
| "optional_str Null = None"
| "optional_str (Given s) = Some s"

definition validate_Exercise :: "Exercise_body \<Rightarrow> int Exercise" where
  "validate_Exercise e =
     \<lparr>ex_name = eb_name e, ex_sets = eb_sets e, ex_reps = eb_reps e,
      ex_weight = optional_str (eb_weight e), ex_notes = optional_str (eb_notes e)\<rparr>"

text \<open>\<^verbatim>\<open>exercises: List[Exercise] = []\<close>: the empty list when absent, \<^verbatim>\<open>null\<close> refused.\<close>

definition validate_WorkoutSplit :: "WorkoutSplit_body \<Rightarrow> int WorkoutSplit option" where
  "validate_WorkoutSplit s =
     (case sb_exercises s of
        Absent \<Rightarrow> Some \<lparr>day = sb_day s, exercises = []\<rparr>
      | Null \<Rightarrow> None
      | Given es \<Rightarrow> Some \<lparr>day = sb_day s, exercises = map validate_Exercise es\<rparr>)"

fun validate_splits :: "WorkoutSplit_body list \<Rightarrow> int WorkoutSplit list option" where
  "validate_splits [] = Some []"
| "validate_splits (s # rest) =
     (case (validate_WorkoutSplit s, validate_splits rest) of
        (Some s', Some rest') \<Rightarrow> Some (s' # rest')
      | _ \<Rightarrow> None)"

text \<open>
  \<^verbatim>\<open>name: str\<close>, \<^verbatim>\<open>type: Literal["predefined", "custom"]\<close>,
  \<^verbatim>\<open>splits: List[WorkoutSplit]\<close>: all three required, no further constraint.
\<close>

definition validate_WorkoutCreate :: "request_body \<Rightarrow> exn + WorkoutCreate" where
  "validate_WorkoutCreate body =
     (case (b_name body, b_type body, b_splits body) of
        (Some n, Some t, Some s) \<Rightarrow>
          (case (Literal_type t, validate_splits s) of
             (Some ty, Some splits) \<Rightarrow> Inr \<lparr>c_name = n, c_type = ty, c_splits = splits\<rparr>
           | _ \<Rightarrow> Inl RequestValidationError)
      | _ \<Rightarrow> Inl RequestValidationError)"

subsection \<open>Handlers\<close>

text \<open>\<^verbatim>\<open>except Exception as e: raise HTTPException(status_code=400, detail=str(e))\<close>\<close>

definition except_400 :: "exn + 'a \<Rightarrow> exn + 'a" where
  "except_400 r = (case r of Inl e \<Rightarrow> Inl (HTTPException 400 (Str e)) | Inr v \<Rightarrow> Inr v)"

definition not_found :: exn where
  "not_found = HTTPException 404 (Text (''Treino n'' @ [CHR 0xC3, CHR 0xA3] @ ''o encontrado''))"

definition no_data :: exn where
  "no_data = HTTPException 400 (Text ''Nenhum dado para atualizar'')"

definition get_predefined_workouts :: "collection \<Rightarrow> Workout option list" where
  "get_predefined_workouts db =
     map (\<lambda>w. serialize_workout (Some w))
       (map bson_decode (take 100 (filter (by_type predefined) db)))"

text \<open>The body of the \<^verbatim>\<open>try\<close> block of \<^verbatim>\<open>get_workout\<close>, then the handler.\<close>

definition get_workout_try :: "string \<Rightarrow> collection \<Rightarrow> exn + Workout option" where
  "get_workout_try workout_id db =
     (case ObjectId workout_id of
        Inl e \<Rightarrow> Inl e
      | Inr oid \<Rightarrow>
          (case find_one (by_id oid) db of
             None \<Rightarrow> Inl not_found
           | Some workout \<Rightarrow> Inr (serialize_workout (Some workout))))"

definition get_workout :: "string \<Rightarrow> collection \<Rightarrow> exn + Workout option" where
  "get_workout workout_id db = except_400 (get_workout_try workout_id db)"

text \<open>
  \<^verbatim>\<open>create_workout\<close> has no \<^verbatim>\<open>try\<close> block. \<open>now\<close> is \<^verbatim>\<open>datetime.utcnow()\<close>,
  \<open>new_id\<close> the identifier generated for the inserted dictionary.
\<close>

definition create_workout ::
  "WorkoutCreate \<Rightarrow> datetime \<Rightarrow> ObjectId \<Rightarrow> collection \<Rightarrow> (exn + Workout option) \<times> collection" where
  "create_workout workout now new_id db =
     (let workout_dict = \<lparr>d_name = c_name workout, d_type = c_type workout,
                           d_splits = c_splits workout, d_createdAt = now\<rparr>
      in case insert_one new_id workout_dict db of
           Inl e \<Rightarrow> (Inl e, db)
         | Inr db' \<Rightarrow> (Inr (serialize_workout (find_one (by_id new_id) db')), db'))"

text \<open>The route \<^verbatim>\<open>POST /workouts\<close>: validation of the body, then the handler.\<close>

definition post_workouts ::
  "request_body \<Rightarrow> datetime \<Rightarrow> ObjectId \<Rightarrow> collection \<Rightarrow> (exn + Workout option) \<times> collection" where
  "post_workouts body now new_id db =
     (case validate_WorkoutCreate body of
        Inl e \<Rightarrow> (Inl e, db)
      | Inr workout \<Rightarrow> create_workout workout now new_id db)"

text \<open>
  \<^verbatim>\<open>{k: v for k, v in workout_update.dict().items() if v is not None}\<close>
\<close>

definition update_data_of :: "WorkoutUpdate \<Rightarrow> int update_field list" where
  "update_data_of workout_update =
     (case u_name workout_update of None \<Rightarrow> [] | Some n \<Rightarrow> [SetName n]) @
     (case u_splits workout_update of None \<Rightarrow> [] | Some s \<Rightarrow> [SetSplits s])"

definition update_workout_try ::
  "string \<Rightarrow> WorkoutUpdate \<Rightarrow> collection \<Rightarrow> (exn + Workout option) \<times> collection" where
  "update_workout_try workout_id workout_update db =
     (let update_data = update_data_of workout_update
      in if update_data = [] then (Inl no_data, db)
         else
           (case ObjectId workout_id of
              Inl e \<Rightarrow> (Inl e, db)
            | Inr oid \<Rightarrow>
                (case update_one (by_id oid) update_data db of
                   Inl e \<Rightarrow> (Inl e, db)
                 | Inr (matched_count, db') \<Rightarrow>
                     if matched_count = 0 then (Inl not_found, db')
                     else (Inr (serialize_workout (find_one (by_id oid) db')), db'))))"

definition update_workout ::
  "string \<Rightarrow> WorkoutUpdate \<Rightarrow> collection \<Rightarrow> (exn + Workout option) \<times> collection" where
  "update_workout workout_id workout_update db =
     (let (r, db') = update_workout_try workout_id workout_update db in (except_400 r, db'))"

definition deleted_message :: "(string \<times> string) list" where
  "deleted_message = [(''message'', ''Treino deletado com sucesso'')]"

definition delete_workout_try ::
  "string \<Rightarrow> collection \<Rightarrow> (exn + (string \<times> string) list) \<times> collection" where
  "delete_workout_try workout_id db =
     (case ObjectId workout_id of
        Inl e \<Rightarrow> (Inl e, db)
      | Inr oid \<Rightarrow>
          (let (deleted_count, db') = delete_one (by_id oid) db
           in if deleted_count = 0 then (Inl not_found, db')
              else (Inr deleted_message, db')))"

definition delete_workout ::
  "string \<Rightarrow> collection \<Rightarrow> (exn + (string \<times> string) list) \<times> collection" where
  "delete_workout workout_id db =
     (let (r, db') = delete_workout_try workout_id db in (except_400 r, db'))"

definition copy_workout_try ::
  "string \<Rightarrow> string \<Rightarrow> datetime \<Rightarrow> ObjectId \<Rightarrow> collection \<Rightarrow> (exn + Workout option) \<times> collection" where
  "copy_workout_try workout_id new_name now new_id db =
     (case ObjectId workout_id of
        Inl e \<Rightarrow> (Inl e, db)
      | Inr oid \<Rightarrow>
          (case find_one (by_id oid) db of
             None \<Rightarrow> (Inl not_found, db)
           | Some original \<Rightarrow>
               (let new_workout = \<lparr>d_name = new_name, d_type = custom,
                                    d_splits = d_splits original, d_createdAt = now\<rparr>
                in case insert_one new_id new_workout db of
                     Inl e \<Rightarrow> (Inl e, db)
                   | Inr db' \<Rightarrow> (Inr (serialize_workout (find_one (by_id new_id) db')), db'))))"

definition copy_workout ::
  "string \<Rightarrow> string \<Rightarrow> datetime \<Rightarrow> ObjectId \<Rightarrow> collection \<Rightarrow> (exn + Workout option) \<times> collection" where
  "copy_workout workout_id new_name now new_id db =
     (let (r, db') = copy_workout_try workout_id new_name now new_id db in (except_400 r, db'))"

subsection \<open>Seeding\<close>

text \<open>The UTF-8 bytes of the accented letters of the catalog.\<close>

definition a_acute :: string where "a_acute = [CHR 0xC3, CHR 0xA1]"
definition a_tilde :: string where "a_tilde = [CHR 0xC3, CHR 0xA3]"
definition c_cedilla :: string where "c_cedilla = [CHR 0xC3, CHR 0xA7]"
definition e_acute :: string where "e_acute = [CHR 0xC3, CHR 0xA9]"
definition i_acute :: string where "i_acute = [CHR 0xC3, CHR 0xAD]"

text \<open>
  Every exercise of the catalog is written with \<^verbatim>\<open>"weight": ""\<close> and
  \<^verbatim>\<open>"notes": ""\<close>.
\<close>

definition exercise :: "string \<Rightarrow> int \<Rightarrow> string \<Rightarrow> int Exercise" where
  "exercise n s r = \<lparr>ex_name = n, ex_sets = s, ex_reps = r, ex_weight = Some [], ex_notes = Some []\<rparr>"

definition abc_classico :: "datetime \<Rightarrow> int workout_dict" where
  "abc_classico now =
     \<lparr>d_name = ''ABC - Cl'' @ a_acute @ ''ssico'',
      d_type = predefined,
      d_splits = [
       \<lparr>day = ''A - Peito e Tr'' @ i_acute @ ''ceps'',
         exercises = [
           exercise ''Supino Reto'' 4 ''8-12'',
           exercise ''Supino Inclinado'' 3 ''10-12'',
           exercise ''Crucifixo'' 3 ''12-15'',
           exercise (''Tr'' @ i_acute @ ''ceps Testa'') 3 ''10-12'',
           exercise (''Tr'' @ i_acute @ ''ceps Corda'') 3 ''12-15'']\<rparr>,
       \<lparr>day = ''B - Costas e B'' @ i_acute @ ''ceps'',
         exercises = [
           exercise ''Barra Fixa'' 4 ''8-10'',
           exercise ''Remada Curvada'' 4 ''8-12'',
           exercise ''Puxada Frontal'' 3 ''10-12'',
           exercise ''Rosca Direta'' 3 ''10-12'',
           exercise ''Rosca Martelo'' 3 ''12-15'']\<rparr>,
       \<lparr>day = ''C - Pernas e Ombros'',
         exercises = [
           exercise ''Agachamento Livre'' 4 ''8-12'',
           exercise ''Leg Press'' 4 ''10-12'',
           exercise ''Cadeira Extensora'' 3 ''12-15'',
           exercise ''Desenvolvimento'' 4 ''8-12'',
           exercise (''Eleva'' @ c_cedilla @ a_tilde @ ''o Lateral'') 3 ''12-15'']\<rparr>],
      d_createdAt = now\<rparr>"

definition abcde_avancado :: "datetime \<Rightarrow> int workout_dict" where
  "abcde_avancado now =
     \<lparr>d_name = ''ABCDE - Avan'' @ c_cedilla @ ''ado'',
      d_type = predefined,
      d_splits = [
       \<lparr>day = ''A - Peito'',
         exercises = [
           exercise ''Supino Reto'' 4 ''8-10'',
           exercise ''Supino Inclinado'' 4 ''8-10'',
           exercise ''Crucifixo Inclinado'' 3 ''10-12'',
           exercise ''Crossover'' 3 ''12-15'']\<rparr>,
       \<lparr>day = ''B - Costas'',
         exercises = [
           exercise ''Barra Fixa'' 4 ''8-10'',
           exercise ''Remada Curvada'' 4 ''8-10'',
           exercise ''Puxada Frontal'' 3 ''10-12'',
           exercise ''Remada Baixa'' 3 ''10-12'']\<rparr>,
       \<lparr>day = ''C - Pernas'',
         exercises = [
           exercise ''Agachamento Livre'' 4 ''8-10'',
           exercise ''Leg Press'' 4 ''10-12'',
           exercise ''Cadeira Extensora'' 3 ''12-15'',
           exercise ''Mesa Flexora'' 3 ''12-15'',
           exercise (''Panturrilha em P'' @ e_acute) 4 ''15-20'']\<rparr>,
       \<lparr>day = ''D - Ombros'',
         exercises = [
           exercise ''Desenvolvimento'' 4 ''8-10'',
           exercise (''Eleva'' @ c_cedilla @ a_tilde @ ''o Lateral'') 4 ''12-15'',
           exercise (''Eleva'' @ c_cedilla @ a_tilde @ ''o Frontal'') 3 ''12-15'',
           exercise ''Crucifixo Inverso'' 3 ''12-15'']\<rparr>,
       \<lparr>day = ''E - Bra'' @ c_cedilla @ ''os'',
         exercises = [
           exercise ''Rosca Direta'' 4 ''8-12'',
           exercise ''Rosca Alternada'' 3 ''10-12'',
           exercise (''Tr'' @ i_acute @ ''ceps Testa'') 4 ''8-12'',
           exercise (''Tr'' @ i_acute @ ''ceps Corda'') 3 ''12-15'']\<rparr>],
      d_createdAt = now\<rparr>"

definition push_pull_legs :: "datetime \<Rightarrow> int workout_dict" where
  "push_pull_legs now =
     \<lparr>d_name = ''Push/Pull/Legs'',
      d_type = predefined,
      d_splits = [
       \<lparr>day = ''Push - Empurrar'',
         exercises = [
           exercise ''Supino Reto'' 4 ''8-10'',
           exercise ''Desenvolvimento'' 4 ''8-10'',
           exercise ''Supino Inclinado'' 3 ''10-12'',
           exercise (''Eleva'' @ c_cedilla @ a_tilde @ ''o Lateral'') 3 ''12-15'',
           exercise (''Tr'' @ i_acute @ ''ceps Corda'') 3 ''12-15'']\<rparr>,
       \<lparr>day = ''Pull - Puxar'',
         exercises = [
           exercise ''Barra Fixa'' 4 ''8-10'',
           exercise ''Remada Curvada'' 4 ''8-10'',
           exercise ''Puxada Frontal'' 3 ''10-12'',
           exercise ''Rosca Direta'' 3 ''10-12'',
           exercise ''Rosca Martelo'' 3 ''12-15'']\<rparr>,
       \<lparr>day = ''Legs - Pernas'',
         exercises = [
           exercise ''Agachamento Livre'' 4 ''8-10'',
           exercise ''Leg Press'' 4 ''10-12'',
           exercise ''Cadeira Extensora'' 3 ''12-15'',
           exercise ''Mesa Flexora'' 3 ''12-15'',
           exercise ''Panturrilha'' 4 ''15-20'']\<rparr>],
      d_createdAt = now\<rparr>"

definition upper_lower :: "datetime \<Rightarrow> int workout_dict" where
  "upper_lower now =
     \<lparr>d_name = ''Upper/Lower'',
      d_type = predefined,
      d_splits = [
       \<lparr>day = ''Upper - Parte Superior'',
         exercises = [
           exercise ''Supino Reto'' 4 ''8-10'',
           exercise ''Remada Curvada'' 4 ''8-10'',
           exercise ''Desenvolvimento'' 3 ''10-12'',
           exercise ''Puxada Frontal'' 3 ''10-12'',
           exercise ''Rosca Direta'' 3 ''10-12'',
           exercise (''Tr'' @ i_acute @ ''ceps Corda'') 3 ''12-15'']\<rparr>,
       \<lparr>day = ''Lower - Parte Inferior'',
         exercises = [
           exercise ''Agachamento Livre'' 4 ''8-10'',
           exercise ''Leg Press'' 4 ''10-12'',
           exercise ''Stiff'' 3 ''10-12'',
           exercise ''Cadeira Extensora'' 3 ''12-15'',
           exercise ''Mesa Flexora'' 3 ''12-15'',
           exercise ''Panturrilha'' 4 ''15-20'']\<rparr>],
      d_createdAt = now\<rparr>"

text \<open>
  The list \<^verbatim>\<open>predefined_workouts\<close>; each entry reads \<^verbatim>\<open>datetime.utcnow()\<close> once.
\<close>

fun predefined_workouts :: "datetime \<times> datetime \<times> datetime \<times> datetime \<Rightarrow> int workout_dict list" where
  "predefined_workouts (t1, t2, t3, t4) =
     [abc_classico t1, abcde_avancado t2, push_pull_legs t3, upper_lower t4]"

text \<open>
  \<^verbatim>\<open>initialize_predefined_workouts\<close>: \<open>nows\<close> are the four clock readings, \<open>ids\<close>
  the identifiers generated for the four inserted dictionaries. The result is the
  exception that leaves the routine, if any, and the collection.
\<close>

fun initialize_predefined_workouts ::
  "datetime \<times> datetime \<times> datetime \<times> datetime \<Rightarrow> ObjectId \<times> ObjectId \<times> ObjectId \<times> ObjectId \<Rightarrow>
   collection \<Rightarrow> exn option \<times> collection" where
  "initialize_predefined_workouts nows (i1, i2, i3, i4) db =
     (let count = count_documents (by_type predefined) db
      in if count = 0
         then insert_many (zip [i1, i2, i3, i4] (predefined_workouts nows)) db
         else (None, db))"

text \<open>
  Invoking the routine again and again, each time with its own clock readings and
  generated identifiers; an exception ends the run.
\<close>

fun reinvoke ::
  "((datetime \<times> datetime \<times> datetime \<times> datetime) \<times> (ObjectId \<times> ObjectId \<times> ObjectId \<times> ObjectId)) list \<Rightarrow>
   collection \<Rightarrow> exn option \<times> collection" where
  "reinvoke [] db = (None, db)"
| "reinvoke ((nows, ids) # rest) db =
     (case initialize_predefined_workouts nows ids db of
        (Some e, db') \<Rightarrow> (Some e, db')
      | (None, db') \<Rightarrow> reinvoke rest db')"

subsection \<open>Test data\<close>

text \<open>
  The well-formed identifier that \<^verbatim>\<open>backend_test.py\<close> looks up and that no document
  has, and the request of the concrete scenario: name \<^verbatim>\<open>Test\<close>, type
  \<^verbatim>\<open>custom\<close>, one split \<^verbatim>\<open>A\<close> with the exercise \<^verbatim>\<open>Squat\<close>, 3 sets of
  \<^verbatim>\<open>10\<close>, no weight and no notes; the workout the request model makes of it, and the
  document it is stored as.
\<close>

definition test_id :: string where
  "test_id = ''507f1f77bcf86cd799439011''"

definition test_oid :: ObjectId where
  "test_oid = [5, 0, 7, 15, 1, 15, 7, 7, 11, 12, 15, 8, 6, 12, 13, 7, 9, 9, 4, 3, 9, 0, 1, 1]"

definition test_body :: request_body where
  "test_body =
     \<lparr>b_name = Some ''Test'', b_type = Some ''custom'',
      b_splits = Some [\<lparr>sb_day = ''A'',
                         sb_exercises = Given [\<lparr>eb_name = ''Squat'', eb_sets = 3, eb_reps = ''10'',
                                                 eb_weight = Absent, eb_notes = Absent\<rparr>]\<rparr>]\<rparr>"

definition test_workout :: WorkoutCreate where
  "test_workout =
     \<lparr>c_name = ''Test'', c_type = custom,
      c_splits = [\<lparr>day = ''A'',
                    exercises = [\<lparr>ex_name = ''Squat'', ex_sets = 3, ex_reps = ''10'',
                                  ex_weight = Some [], ex_notes = Some []\<rparr>]\<rparr>]\<rparr>"

definition test_dict :: "int document" where
  "test_dict =
     \<lparr>d_name = c_name test_workout, d_type = c_type test_workout,
      d_splits = c_splits test_workout, d_createdAt = 0, doc_id = test_oid\<rparr>"

definition test_document :: "int64 document" where
  "test_document = bson_encode test_dict"

text \<open>The same request with \<^verbatim>\<open>"sets": 9223372036854775808\<close>, that is \<open>2 ^ 63\<close>.\<close>

definition big_body :: request_body where
  "big_body =
     \<lparr>b_name = Some ''Test'', b_type = Some ''custom'',
      b_splits = Some [\<lparr>sb_day = ''A'',
                         sb_exercises = Given [\<lparr>eb_name = ''Squat'', eb_sets = 9223372036854775808,
                                                 eb_reps = ''10'', eb_weight = Absent,
                                                 eb_notes = Absent\<rparr>]\<rparr>]\<rparr>"

definition big_workout :: WorkoutCreate where
  "big_workout =
     \<lparr>c_name = ''Test'', c_type = custom,
      c_splits = [\<lparr>day = ''A'',
                    exercises = [\<lparr>ex_name = ''Squat'', ex_sets = 9223372036854775808,
                                  ex_reps = ''10'', ex_weight = Some [], ex_notes = Some []\<rparr>]\<rparr>]\<rparr>"

text \<open>
  The identifier of 24 zeros, and a stored predefined workout: the entry
  \<^verbatim>\<open>Upper/Lower\<close> of the catalog under that identifier.
\<close>

definition zero_id :: string where
  "zero_id = ''000000000000000000000000''"

definition zero_oid :: ObjectId where
  "zero_oid = replicate 24 0"

definition seeded_document :: "int64 document" where
  "seeded_document = bson_encode (with_id zero_oid (upper_lower 4))"

section \<open>Lemmas\<close>

subsection \<open>Identifiers\<close>

lemma hex_all: "\<forall>n \<in> set [0..<16]. hex_value (hex_digit n) = Some n"
  by code_simp

lemma hex_value_digit: "n < 16 \<Longrightarrow> hex_value (hex_digit n) = Some n"
  using hex_all by simp

lemma hex_chars_lt:
  "\<forall>c \<in> set ''0123456789abcdefABCDEF''. (case hex_value c of Some n \<Rightarrow> n < 16 | None \<Rightarrow> False)"
  by code_simp

lemma hex_value_None: "c \<notin> set ''0123456789abcdefABCDEF'' \<Longrightarrow> hex_value c = None"
  by (simp add: hex_value_def)

lemma hex_value_lt: "hex_value c = Some n \<Longrightarrow> n < 16"
proof (cases "c \<in> set ''0123456789abcdefABCDEF''")
  case True
  assume "hex_value c = Some n"
  with True hex_chars_lt show ?thesis by (metis option.simps(5))
next
  case False
  assume "hex_value c = Some n"
  with hex_value_None[OF False] show ?thesis by simp
qed


lemma ObjectId_valid: "ObjectId s = Inr oid \<Longrightarrow> valid_oid oid"
proof -
  assume a: "ObjectId s = Inr oid"
  then have l: "length s = 24" and h: "\<forall>c \<in> set s. hex_value c \<noteq> None"
    and o: "oid = map (\<lambda>c. the (hex_value c)) s"
    by (simp_all add: ObjectId_def split: if_splits)
  have "\<forall>n \<in> set oid. n < 16"
  proof
    fix n assume "n \<in> set oid"
    then obtain c where c: "c \<in> set s" and n: "n = the (hex_value c)" using o by auto
    from h c obtain m where "hex_value c = Some m" by auto
    then show "n < 16" using n hex_value_lt by simp
  qed
  then show ?thesis using l o by (simp add: valid_oid_def)
qed

lemma ObjectId_str: "valid_oid oid \<Longrightarrow> ObjectId (str_oid oid) = Inr oid"
proof -
  assume v: "valid_oid oid"
  then have l: "length oid = 24" and b: "\<forall>n \<in> set oid. n < 16" by (simp_all add: valid_oid_def)
  have 1: "\<forall>c \<in> set (str_oid oid). hex_value c \<noteq> None"
    using b by (auto simp: str_oid_def hex_value_digit)
  have 2: "map (\<lambda>c. the (hex_value c)) (str_oid oid) = oid"
    using b by (simp add: str_oid_def hex_value_digit map_idI)
  show ?thesis using l 1 2 by (simp add: ObjectId_def) (simp add: str_oid_def)
qed

lemma str_oid_inj: "valid_oid a \<Longrightarrow> valid_oid b \<Longrightarrow> str_oid a = str_oid b \<Longrightarrow> a = b"
  using ObjectId_str by (metis sum.inject(2))

lemma ObjectId_invalid:
  "\<not> (length s = 24 \<and> (\<forall>c \<in> set s. c \<in> set ''0123456789abcdefABCDEF'')) \<Longrightarrow> ObjectId s = Inl (InvalidId s)"
proof -
  assume a: "\<not> (length s = 24 \<and> (\<forall>c \<in> set s. c \<in> set ''0123456789abcdefABCDEF''))"
  show ?thesis
  proof (cases "length s = 24")
    case True
    with a obtain c where "c \<in> set s" and "c \<notin> set ''0123456789abcdefABCDEF''" by blast
    then have "\<not> (\<forall>c \<in> set s. hex_value c \<noteq> None)" using hex_value_None by blast
    then show ?thesis by (simp add: ObjectId_def)
  next
    case False
    then show ?thesis by (simp add: ObjectId_def)
  qed
qed

subsection \<open>Encoding\<close>

lemma sint_word_of_int64: "bson_int i \<Longrightarrow> sint (word_of_int i :: int64) = i"
  by (simp add: bson_int_def sint_sbintrunc' signed_take_bit_int_eq_self)

lemma bson_int_sint: "bson_int (sint (w :: int64))"
  using sint_ge[of w] sint_lt[of w] by (simp add: bson_int_def)

lemma decode_encode_splits:
  "bson_encodable s \<Longrightarrow> map_sets sint (map_sets (word_of_int :: int \<Rightarrow> int64) s) = s"
  by (simp add: bson_encodable_def map_sets_def list_all_iff sint_word_of_int64 map_idI)

lemma encode_decode_splits:
  "map_sets word_of_int (map_sets sint (s :: int64 WorkoutSplit list)) = s"
  by (simp add: map_sets_def map_idI)

lemma encodable_decoded: "bson_encodable (map_sets sint (s :: int64 WorkoutSplit list))"
  by (simp add: bson_encodable_def map_sets_def list_all_iff bson_int_sint)

lemma bson_decode_encode: "bson_encodable (d_splits d) \<Longrightarrow> bson_decode (bson_encode d) = d"
  by (simp add: bson_decode_def bson_encode_def decode_encode_splits)

lemma bson_encode_decode: "bson_encode (bson_decode d) = d"
  by (simp add: bson_decode_def bson_encode_def encode_decode_splits)

lemma bson_decode_fields:
  "doc_id (bson_decode d) = doc_id d" "d_type (bson_decode d) = d_type d"
  "d_name (bson_decode d) = d_name d" "d_createdAt (bson_decode d) = d_createdAt d"
  "d_splits (bson_decode d) = map_sets sint (d_splits d)"
  by (simp_all add: bson_decode_def)

lemma bson_encode_fields:
  "doc_id (bson_encode d) = doc_id d" "d_type (bson_encode d) = d_type d"
  "d_name (bson_encode d) = d_name d" "d_createdAt (bson_encode d) = d_createdAt d"
  "d_splits (bson_encode d) = map_sets word_of_int (d_splits d)"
  by (simp_all add: bson_encode_def)

lemma with_id_fields:
  "doc_id (with_id oid wd) = oid" "d_type (with_id oid wd) = d_type wd"
  "d_name (with_id oid wd) = d_name wd" "d_createdAt (with_id oid wd) = d_createdAt wd"
  "d_splits (with_id oid wd) = d_splits wd"
  by (simp_all add: with_id_def)

subsection \<open>The collection\<close>

lemma find_one_append:
  "find_one q (db @ [d]) =
     (case find_one q db of Some x \<Rightarrow> Some x | None \<Rightarrow> if q d then Some (bson_decode d) else None)"
  by (induction db) (simp_all add: find_one_def)

lemma find_one_fresh: "oid \<notin> set (map doc_id db) \<Longrightarrow> find_one (by_id oid) db = None"
  by (induction db) (auto simp: find_one_def by_id_def)

lemma find_one_None: "find_one q db = None \<longleftrightarrow> List.find q db = None"
  by (simp add: find_one_def)

lemma find_one_Some: "find_one (by_id oid) db = Some W \<Longrightarrow> doc_id W = oid \<and> oid \<in> set (map doc_id db)"
  by (induction db) (auto simp: find_one_def by_id_def bson_decode_fields split: if_splits)

lemma find_one_decoded: "find_one q db = Some W \<Longrightarrow> bson_encodable (d_splits W)"
  by (auto simp: find_one_def bson_decode_fields encodable_decoded)

lemma find_one_inserted:
  "oid \<notin> set (map doc_id db) \<Longrightarrow> bson_encodable (d_splits wd) \<Longrightarrow>
   find_one (by_id oid) (db @ [bson_encode (with_id oid wd)]) = Some (with_id oid wd)"
  by (simp add: find_one_append find_one_fresh)
     (simp add: by_id_def bson_encode_fields with_id_fields bson_decode_encode)

lemma find_one_kept:
  "find_one q db = Some d \<Longrightarrow> find_one q (db @ [d']) = Some d"
  by (simp add: find_one_append)

lemma insert_one_fresh:
  "oid \<notin> set (map doc_id db) \<Longrightarrow> bson_encodable (d_splits wd) \<Longrightarrow>
   insert_one oid wd db = Inr (db @ [bson_encode (with_id oid wd)])"
  by (simp add: insert_one_def)

lemma matched_Some: "find_one q db = Some W \<Longrightarrow> matched q db = 1"
  by (auto simp: matched_def find_one_def)

lemma matched_None: "find_one q db = None \<Longrightarrow> matched q db = 0"
  by (simp add: matched_def find_one_def)

subsection \<open>Updates\<close>

lemma map_update_first: "(\<And>d. g (f d) = g d) \<Longrightarrow> map g (update_first q f db) = map g db"
  by (induction db) simp_all

lemma length_update_first: "length (update_first q f db) = length db"
  by (induction db) simp_all

lemma update_first_others:
  "i < length db \<Longrightarrow> \<not> q (db ! i) \<Longrightarrow> update_first q f db ! i = db ! i"
proof (induction db arbitrary: i)
  case Nil
  then show ?case by simp
next
  case (Cons d ds)
  show ?case
  proof (cases i)
    case 0
    with Cons.prems show ?thesis by simp
  next
    case (Suc j)
    with Cons show ?thesis by simp
  qed
qed

lemma update_first_unmatched: "List.find q db = None \<Longrightarrow> update_first q f db = db"
  by (induction db) (simp_all split: if_splits)

lemma find_one_update_first:
  "find_one (by_id oid) db = Some W \<Longrightarrow> (\<And>d. doc_id (f d) = doc_id d) \<Longrightarrow>
   \<exists>d. bson_decode d = W \<and> find_one (by_id oid) (update_first (by_id oid) f db) = Some (bson_decode (f d))"
  by (induction db) (auto simp: find_one_def by_id_def split: if_splits)

lemma fold_set_field_id: "doc_id (fold set_field us d) = doc_id d"
proof (induction us arbitrary: d)
  case Nil
  show ?case by simp
next
  case (Cons u us)
  show ?case by (cases u) (simp_all add: Cons.IH)
qed

lemma fold_set_field_type: "d_type (fold set_field us d) = d_type d"
proof (induction us arbitrary: d)
  case Nil
  show ?case by simp
next
  case (Cons u us)
  show ?case by (cases u) (simp_all add: Cons.IH)
qed

lemma fold_set_field_createdAt: "d_createdAt (fold set_field us d) = d_createdAt d"
proof (induction us arbitrary: d)
  case Nil
  show ?case by simp
next
  case (Cons u us)
  show ?case by (cases u) (simp_all add: Cons.IH)
qed

lemma set_name_absent:
  "u_name workout_update = None \<Longrightarrow>
   d_name (fold set_field (map encode_field (update_data_of workout_update)) d) = d_name d"
  by (cases "u_splits workout_update") (simp_all add: update_data_of_def)

lemma set_splits_absent:
  "u_splits workout_update = None \<Longrightarrow>
   d_splits (fold set_field (map encode_field (update_data_of workout_update)) d) = d_splits d"
  by (cases "u_name workout_update") (simp_all add: update_data_of_def)

lemma update_data_encodable:
  "list_all field_encodable (update_data_of workout_update) \<longleftrightarrow>
   (case u_splits workout_update of None \<Rightarrow> True | Some s \<Rightarrow> bson_encodable s)"
  by (cases "u_name workout_update"; cases "u_splits workout_update") (simp_all add: update_data_of_def)

lemma set_fields_result:
  assumes "list_all field_encodable (update_data_of workout_update)"
  shows "bson_decode (fold set_field (map encode_field (update_data_of workout_update)) d) =
     (bson_decode d)\<lparr>d_name := (case u_name workout_update of None \<Rightarrow> d_name (bson_decode d) | Some n \<Rightarrow> n),
       d_splits := (case u_splits workout_update of None \<Rightarrow> d_splits (bson_decode d) | Some s \<Rightarrow> s)\<rparr>"
  using assms
  by (cases "u_name workout_update"; cases "u_splits workout_update")
     (simp_all add: update_data_of_def bson_decode_def decode_encode_splits)

lemma snd_update_workout:
  "snd (update_workout workout_id workout_update db) = db \<or>
   (\<exists>oid. ObjectId workout_id = Inr oid \<and> snd (update_workout workout_id workout_update db) =
      update_first (by_id oid) (\<lambda>d. fold set_field (map encode_field (update_data_of workout_update)) d) db)"
  by (auto simp: update_workout_def update_workout_try_def update_one_def Let_def split: sum.splits)

subsection \<open>Handlers\<close>

text \<open>
  The 404 that \<^verbatim>\<open>get_workout\<close> and \<^verbatim>\<open>delete_workout\<close> raise for an identifier that
  matches nothing never leaves the handler: the catch-all answers 400.
\<close>

lemma get_workout_unmatched:
  "ObjectId workout_id = Inr oid \<Longrightarrow> find_one (by_id oid) db = None \<Longrightarrow>
   get_workout workout_id db = Inl (HTTPException 400 (Str not_found))"
  by (simp add: get_workout_def get_workout_try_def except_400_def)

lemma delete_workout_unmatched:
  "ObjectId workout_id = Inr oid \<Longrightarrow> find_one (by_id oid) db = None \<Longrightarrow>
   delete_workout workout_id db = (Inl (HTTPException 400 (Str not_found)), delete_first (by_id oid) db)"
  by (simp add: delete_workout_def delete_workout_try_def delete_one_def matched_None except_400_def)

text \<open>A type outside the two enum values is refused with 422, whatever the name.\<close>

lemma post_workouts_bad_type:
  assumes "b_type body = Some t" and "t \<noteq> ''predefined''" and "t \<noteq> ''custom''"
  shows "status_code (fst (post_workouts body now new_id db)) = 422
    \<and> snd (post_workouts body now new_id db) = db"
  using assms
  by (simp add: post_workouts_def validate_WorkoutCreate_def Literal_type_def
      split: option.splits)

lemma copy_workout_existing:
  assumes "ObjectId workout_id = Inr oid" and "find_one (by_id oid) db = Some W"
    and "new_id \<notin> set (map doc_id db)"
  shows "copy_workout workout_id new_name now new_id db =
    (Inr (Some \<lparr>w_id = Some (str_oid new_id), w_name = new_name, w_type = custom,
                 w_splits = d_splits W, w_createdAt = Some now\<rparr>),
     db @ [bson_encode \<lparr>d_name = new_name, d_type = custom, d_splits = d_splits W,
                        d_createdAt = now, doc_id = new_id\<rparr>])"
proof -
  let ?wd = "\<lparr>d_name = new_name, d_type = custom, d_splits = d_splits W, d_createdAt = now\<rparr>"
  have e: "bson_encodable (d_splits ?wd)"
    using find_one_decoded[OF assms(2)] by simp
  have i: "insert_one new_id ?wd db = Inr (db @ [bson_encode (with_id new_id ?wd)])"
    using assms(3) e by (rule insert_one_fresh)
  have f: "find_one (by_id new_id) (db @ [bson_encode (with_id new_id ?wd)]) = Some (with_id new_id ?wd)"
    using assms(3) e by (rule find_one_inserted)
  show ?thesis
    using assms(1) assms(2) i f
    by (simp add: copy_workout_def copy_workout_try_def except_400_def)
       (simp add: with_id_def)
qed

subsection \<open>Seeding\<close>

lemma catalog_types:
  "d_type (abc_classico t1) = predefined" "d_type (abcde_avancado t2) = predefined"
  "d_type (push_pull_legs t3) = predefined" "d_type (upper_lower t4) = predefined"
  by (simp_all add: abc_classico_def abcde_avancado_def push_pull_legs_def upper_lower_def)

lemma catalog_encodable:
  "bson_encodable (d_splits (abc_classico t1))" "bson_encodable (d_splits (abcde_avancado t2))"
  "bson_encodable (d_splits (push_pull_legs t3))" "bson_encodable (d_splits (upper_lower t4))"
  by (simp_all add: abc_classico_def abcde_avancado_def push_pull_legs_def upper_lower_def
      exercise_def bson_encodable_def bson_int_def)

lemma no_predefined:
  "count_documents (by_type predefined) db = 0 \<Longrightarrow> filter (by_type predefined) db = []"
  by (simp add: count_documents_def)

lemma initialize_skip:
  "count_documents (by_type predefined) db \<noteq> 0 \<Longrightarrow>
   initialize_predefined_workouts nows ids db = (None, db)"
  by (cases ids rule: prod_cases4) simp

lemma reinvoke_skip:
  "count_documents (by_type predefined) db \<noteq> 0 \<Longrightarrow> reinvoke later db = (None, db)"
proof (induction later)
  case Nil
  show ?case by simp
next
  case (Cons p later)
  obtain nows ids where p: "p = (nows, ids)" by (cases p)
  show ?case
    using Cons by (simp add: p initialize_skip)
qed

lemma initialize_seeds:
  assumes "count_documents (by_type predefined) db = 0"
    and "distinct [i1, i2, i3, i4]" and "set [i1, i2, i3, i4] \<inter> set (map doc_id db) = {}"
  shows "initialize_predefined_workouts (t1, t2, t3, t4) (i1, i2, i3, i4) db =
    (None, db @ [bson_encode (with_id i1 (abc_classico t1)), bson_encode (with_id i2 (abcde_avancado t2)),
                 bson_encode (with_id i3 (push_pull_legs t3)), bson_encode (with_id i4 (upper_lower t4))])"
  using assms
  by (auto simp: insert_many_def insert_one_def catalog_encodable bson_encode_fields with_id_fields)

lemma seeded_listing:
  assumes "count_documents (by_type predefined) db = 0"
  shows "get_predefined_workouts
      (db @ [bson_encode (with_id i1 (abc_classico t1)), bson_encode (with_id i2 (abcde_avancado t2)),
             bson_encode (with_id i3 (push_pull_legs t3)), bson_encode (with_id i4 (upper_lower t4))]) =
    [serialize_workout (Some (with_id i1 (abc_classico t1))),
     serialize_workout (Some (with_id i2 (abcde_avancado t2))),
     serialize_workout (Some (with_id i3 (push_pull_legs t3))),
     serialize_workout (Some (with_id i4 (upper_lower t4)))]"
proof -
  have d: "bson_decode (bson_encode (with_id i (abc_classico t))) = with_id i (abc_classico t)"
    "bson_decode (bson_encode (with_id i (abcde_avancado t))) = with_id i (abcde_avancado t)"
    "bson_decode (bson_encode (with_id i (push_pull_legs t))) = with_id i (push_pull_legs t)"
    "bson_decode (bson_encode (with_id i (upper_lower t))) = with_id i (upper_lower t)" for i t
    by (simp_all add: bson_decode_encode with_id_fields catalog_encodable)
  show ?thesis
    using no_predefined[OF assms]
    by (simp add: get_predefined_workouts_def by_type_def bson_encode_fields with_id_fields
        catalog_types d)
qed

lemma seeded_count:
  "count_documents (by_type predefined)
      (db @ [bson_encode (with_id i1 (abc_classico t1)), bson_encode (with_id i2 (abcde_avancado t2)),
             bson_encode (with_id i3 (push_pull_legs t3)), bson_encode (with_id i4 (upper_lower t4))]) \<noteq> 0"
  by (simp add: count_documents_def by_type_def bson_encode_fields with_id_fields catalog_types)

subsection \<open>Test data\<close>

lemma test_oid_parsed: "ObjectId test_id = Inr test_oid"
  by code_simp

lemma test_oid_valid: "valid_oid test_oid"
  by code_simp

lemma test_oid_str: "str_oid test_oid = test_id"
  by code_simp

lemma test_body_valid: "validate_WorkoutCreate test_body = Inr test_workout"
  by (simp add: validate_WorkoutCreate_def test_body_def test_workout_def Literal_type_def
      validate_WorkoutSplit_def validate_Exercise_def)

lemma test_workout_encodable: "bson_encodable (c_splits test_workout)"
  by (simp add: test_workout_def bson_encodable_def bson_int_def)

lemma test_document_found: "find_one (by_id test_oid) [test_document] = Some test_dict"
proof -
  have "bson_encodable (d_splits test_dict)"
    using test_workout_encodable by (simp add: test_dict_def)
  then have "bson_decode test_document = test_dict"
    by (simp add: test_document_def bson_decode_encode)
  moreover have "doc_id test_document = test_oid"
    by (simp add: test_document_def bson_encode_fields test_dict_def)
  ultimately show ?thesis
    by (simp add: find_one_def by_id_def)
qed

lemma zero_oid_parsed: "ObjectId zero_id = Inr zero_oid"
  by code_simp

lemma zero_oid_valid: "valid_oid zero_oid"
  by code_simp

lemma zero_oid_other: "zero_oid \<noteq> test_oid"
  by code_simp

lemma test_document_id: "doc_id test_document = test_oid"
  by (simp add: test_document_def bson_encode_fields test_dict_def)

lemma seeded_document_id: "doc_id seeded_document = zero_oid"
  by (simp add: seeded_document_def bson_encode_fields with_id_fields)

lemma seeded_document_found:
  "find_one (by_id zero_oid) [seeded_document] = Some (with_id zero_oid (upper_lower 4))"
  by (simp add: find_one_def by_id_def seeded_document_id)
     (simp add: seeded_document_def bson_decode_encode with_id_fields catalog_encodable)

lemma test_document_first:
  "find_one (by_id test_oid) [test_document, seeded_document] = Some test_dict"
  using test_document_found by (simp add: find_one_def by_id_def test_document_id)

lemma big_workout_overflows: "\<not> bson_encodable (c_splits big_workout)"
  by (simp add: big_workout_def bson_encodable_def bson_int_def)

lemma big_body_valid: "validate_WorkoutCreate big_body = Inr big_workout"
  by (simp add: validate_WorkoutCreate_def big_body_def big_workout_def Literal_type_def
      validate_WorkoutSplit_def validate_Exercise_def)


section \<open>Claims\<close>

subsection \<open>Fetching by identifier\<close>

text \<open>
  C1. The claim: a well-formed 24-hex-character identifier that matches no stored workout
  makes the get-by-id operation fail with NotFound (404). The handler raises the 404
  inside its \<^verbatim>\<open>try\<close> block, and its own \<^verbatim>\<open>except Exception\<close> catches it and
  answers 400: for the identifier of the test suite and an empty collection the status
  is 400 and not 404.
\<close>

theorem get_workout_missing_400:
  "get_workout test_id [] = Inl (HTTPException 400 (Str not_found))
   \<and> status_code (get_workout test_id []) = 400
   \<and> status_code (get_workout test_id []) \<noteq> 404"
  by code_simp

text \<open>
  C9. An identifier string that is not 24 hexadecimal characters makes get-by-id, and
  every handler that parses the identifier (update, delete, copy), answer 400, and the
  collection stays as it was.
\<close>

theorem invalid_id_400:
  assumes "\<not> (length workout_id = 24 \<and> (\<forall>c \<in> set workout_id. c \<in> set ''0123456789abcdefABCDEF''))"
  shows "get_workout workout_id db = Inl (HTTPException 400 (Str (InvalidId workout_id)))
    \<and> status_code (get_workout workout_id db) = 400
    \<and> status_code (fst (update_workout workout_id workout_update db)) = 400
    \<and> snd (update_workout workout_id workout_update db) = db
    \<and> delete_workout workout_id db = (Inl (HTTPException 400 (Str (InvalidId workout_id))), db)
    \<and> copy_workout workout_id new_name now new_id db =
        (Inl (HTTPException 400 (Str (InvalidId workout_id))), db)"
  using ObjectId_invalid[OF assms]
  by (simp add: get_workout_def get_workout_try_def update_workout_def update_workout_try_def
      delete_workout_def delete_workout_try_def copy_workout_def copy_workout_try_def except_400_def
      no_data_def Let_def)

theorem invalid_id_400_witness:
  "get_workout ''not-an-id'' [test_document] = Inl (HTTPException 400 (Str (InvalidId ''not-an-id'')))
   \<and> status_code (get_workout ''not-an-id'' [test_document]) = 400
   \<and> status_code (fst (update_workout ''not-an-id'' \<lparr>u_name = Some ''X'', u_splits = None\<rparr> [test_document])) = 400
   \<and> snd (update_workout ''not-an-id'' \<lparr>u_name = Some ''X'', u_splits = None\<rparr> [test_document]) = [test_document]
   \<and> delete_workout ''not-an-id'' [test_document] =
       (Inl (HTTPException 400 (Str (InvalidId ''not-an-id''))), [test_document])
   \<and> copy_workout ''not-an-id'' ''X'' 1 test_oid [test_document] =
       (Inl (HTTPException 400 (Str (InvalidId ''not-an-id''))), [test_document])"
proof -
  have h: "\<not> (length ''not-an-id'' = 24 \<and> (\<forall>c \<in> set ''not-an-id''. c \<in> set ''0123456789abcdefABCDEF''))"
    by simp
  show ?thesis
    by (rule invalid_id_400[OF h])
qed

subsection \<open>Updating\<close>

text \<open>
  C6. An update that provides neither a name nor splits fails with status 400, the
  exception being the handler's \<^verbatim>\<open>Nenhum dado para atualizar\<close>, and the collection is
  returned as it was: nothing is written.
\<close>

theorem update_nothing_400:
  assumes "u_name workout_update = None" and "u_splits workout_update = None"
  shows "update_workout workout_id workout_update db = (Inl (HTTPException 400 (Str no_data)), db)
    \<and> status_code (fst (update_workout workout_id workout_update db)) = 400
    \<and> snd (update_workout workout_id workout_update db) = db"
  using assms
  by (simp add: update_workout_def update_workout_try_def update_data_of_def except_400_def)

theorem update_nothing_400_witness:
  "update_workout test_id \<lparr>u_name = None, u_splits = None\<rparr> [test_document] =
     (Inl (HTTPException 400 (Str no_data)), [test_document])
   \<and> status_code (fst (update_workout test_id \<lparr>u_name = None, u_splits = None\<rparr> [test_document])) = 400
   \<and> snd (update_workout test_id \<lparr>u_name = None, u_splits = None\<rparr> [test_document]) = [test_document]"
  by (rule update_nothing_400) simp_all

text \<open>
  C5. An update writes only the fields the caller supplied, and only to the document it
  addresses. Whatever the request and its outcome, no stored document changes its
  identifier, type or creation timestamp; without a name in the request no name changes,
  without splits no splits change; the collection keeps its length, every document with
  another identifier stays as it is, and an identifier that matches nothing writes
  nothing. When the identifier matches the stored workout \<open>W\<close>, a field is supplied and
  the supplied splits can be encoded, the stored document becomes \<open>W\<close> with the supplied
  fields replaced, and that document is returned. Supplied splits that cannot be encoded
  are answered 400 and nothing is written.
\<close>

theorem update_workout_frame:
  "map doc_id (snd (update_workout workout_id workout_update db)) = map doc_id db
   \<and> map d_type (snd (update_workout workout_id workout_update db)) = map d_type db
   \<and> map d_createdAt (snd (update_workout workout_id workout_update db)) = map d_createdAt db
   \<and> (u_name workout_update = None \<longrightarrow>
        map d_name (snd (update_workout workout_id workout_update db)) = map d_name db)
   \<and> (u_splits workout_update = None \<longrightarrow>
        map d_splits (snd (update_workout workout_id workout_update db)) = map d_splits db)
   \<and> length (snd (update_workout workout_id workout_update db)) = length db
   \<and> (\<forall>i < length db. ObjectId workout_id \<noteq> Inr (doc_id (db ! i)) \<longrightarrow>
        snd (update_workout workout_id workout_update db) ! i = db ! i)
   \<and> ((\<forall>oid'. ObjectId workout_id = Inr oid' \<longrightarrow> find_one (by_id oid') db = None) \<longrightarrow>
        snd (update_workout workout_id workout_update db) = db)
   \<and> (ObjectId workout_id = Inr oid \<and> find_one (by_id oid) db = Some W
        \<and> (u_name workout_update \<noteq> None \<or> u_splits workout_update \<noteq> None)
        \<and> (case u_splits workout_update of None \<Rightarrow> True | Some s \<Rightarrow> bson_encodable s) \<longrightarrow>
        find_one (by_id oid) (snd (update_workout workout_id workout_update db)) =
          Some (W\<lparr>d_name := (case u_name workout_update of None \<Rightarrow> d_name W | Some n \<Rightarrow> n),
                  d_splits := (case u_splits workout_update of None \<Rightarrow> d_splits W | Some s \<Rightarrow> s)\<rparr>)
        \<and> fst (update_workout workout_id workout_update db) =
          Inr (serialize_workout
            (Some (W\<lparr>d_name := (case u_name workout_update of None \<Rightarrow> d_name W | Some n \<Rightarrow> n),
                    d_splits := (case u_splits workout_update of None \<Rightarrow> d_splits W | Some s \<Rightarrow> s)\<rparr>))))
   \<and> (\<not> (case u_splits workout_update of None \<Rightarrow> True | Some s \<Rightarrow> bson_encodable s) \<longrightarrow>
        snd (update_workout workout_id workout_update db) = db
        \<and> status_code (fst (update_workout workout_id workout_update db)) = 400)"
proof -
  let ?db' = "snd (update_workout workout_id workout_update db)"
  let ?f = "\<lambda>d. fold set_field (map encode_field (update_data_of workout_update)) d"
  note s = snd_update_workout[of workout_id workout_update db]
  have 1: "map doc_id ?db' = map doc_id db"
    using s by (auto simp: map_update_first fold_set_field_id)
  have 2: "map d_type ?db' = map d_type db"
    using s by (auto simp: map_update_first fold_set_field_type)
  have 3: "map d_createdAt ?db' = map d_createdAt db"
    using s by (auto simp: map_update_first fold_set_field_createdAt)
  have 4: "u_name workout_update = None \<longrightarrow> map d_name ?db' = map d_name db"
    using s by (auto simp: map_update_first set_name_absent)
  have 5: "u_splits workout_update = None \<longrightarrow> map d_splits ?db' = map d_splits db"
    using s by (auto simp: map_update_first set_splits_absent)
  have 6: "length ?db' = length db"
    using s by (auto simp: length_update_first)
  have 7: "\<forall>i < length db. ObjectId workout_id \<noteq> Inr (doc_id (db ! i)) \<longrightarrow> ?db' ! i = db ! i"
    using s by (auto simp: update_first_others by_id_def)
  have 8: "(\<forall>oid'. ObjectId workout_id = Inr oid' \<longrightarrow> find_one (by_id oid') db = None) \<longrightarrow> ?db' = db"
    using s by (auto simp: find_one_None update_first_unmatched)
  have 9: "find_one (by_id oid) ?db' =
          Some (W\<lparr>d_name := (case u_name workout_update of None \<Rightarrow> d_name W | Some n \<Rightarrow> n),
                  d_splits := (case u_splits workout_update of None \<Rightarrow> d_splits W | Some s \<Rightarrow> s)\<rparr>)
        \<and> fst (update_workout workout_id workout_update db) =
          Inr (serialize_workout
            (Some (W\<lparr>d_name := (case u_name workout_update of None \<Rightarrow> d_name W | Some n \<Rightarrow> n),
                    d_splits := (case u_splits workout_update of None \<Rightarrow> d_splits W | Some s \<Rightarrow> s)\<rparr>)))"
    if o: "ObjectId workout_id = Inr oid" and f: "find_one (by_id oid) db = Some W"
      and n: "u_name workout_update \<noteq> None \<or> u_splits workout_update \<noteq> None"
      and e: "case u_splits workout_update of None \<Rightarrow> True | Some s \<Rightarrow> bson_encodable s"
  proof -
    from n have ne: "update_data_of workout_update \<noteq> []"
      by (auto simp: update_data_of_def)
    from e have enc: "list_all field_encodable (update_data_of workout_update)"
      by (simp add: update_data_encodable)
    obtain d where d: "bson_decode d = W"
      and u: "find_one (by_id oid) (update_first (by_id oid) ?f db) = Some (bson_decode (?f d))"
      using find_one_update_first[OF f, of ?f] fold_set_field_id by blast
    have r: "bson_decode (?f d) =
        W\<lparr>d_name := (case u_name workout_update of None \<Rightarrow> d_name W | Some n \<Rightarrow> n),
          d_splits := (case u_splits workout_update of None \<Rightarrow> d_splits W | Some s \<Rightarrow> s)\<rparr>"
      using set_fields_result[OF enc, of d] unfolding d .
    show ?thesis
      using o ne enc u matched_Some[OF f]
      by (simp add: update_workout_def update_workout_try_def update_one_def except_400_def Let_def r)
  qed
  have 10: "?db' = db \<and> status_code (fst (update_workout workout_id workout_update db)) = 400"
    if e: "\<not> (case u_splits workout_update of None \<Rightarrow> True | Some s \<Rightarrow> bson_encodable s)"
  proof -
    from e have enc: "\<not> list_all field_encodable (update_data_of workout_update)"
      by (simp add: update_data_encodable)
    then have ne: "update_data_of workout_update \<noteq> []"
      by auto
    show ?thesis
      using enc ne
      by (cases "ObjectId workout_id")
         (simp_all add: update_workout_def update_workout_try_def update_one_def except_400_def Let_def)
  qed
  show ?thesis
    using 1 2 3 4 5 6 7 8 9 10 by blast
qed

theorem update_workout_frame_witness:
  "ObjectId test_id = Inr test_oid
   \<and> find_one (by_id test_oid) [test_document, seeded_document] = Some test_dict
   \<and> map doc_id (snd (update_workout test_id \<lparr>u_name = Some ''Renamed'', u_splits = None\<rparr> [test_document, seeded_document])) = map doc_id [test_document, seeded_document]
   \<and> map d_type (snd (update_workout test_id \<lparr>u_name = Some ''Renamed'', u_splits = None\<rparr> [test_document, seeded_document])) = map d_type [test_document, seeded_document]
   \<and> map d_createdAt (snd (update_workout test_id \<lparr>u_name = Some ''Renamed'', u_splits = None\<rparr> [test_document, seeded_document])) = map d_createdAt [test_document, seeded_document]
   \<and> map d_splits (snd (update_workout test_id \<lparr>u_name = Some ''Renamed'', u_splits = None\<rparr> [test_document, seeded_document])) = map d_splits [test_document, seeded_document]
   \<and> length (snd (update_workout test_id \<lparr>u_name = Some ''Renamed'', u_splits = None\<rparr> [test_document, seeded_document])) = length [test_document, seeded_document]
   \<and> snd (update_workout test_id \<lparr>u_name = Some ''Renamed'', u_splits = None\<rparr> [test_document, seeded_document]) ! 1 = [test_document, seeded_document] ! 1
   \<and> find_one (by_id test_oid) (snd (update_workout test_id \<lparr>u_name = Some ''Renamed'', u_splits = None\<rparr> [test_document, seeded_document])) = Some (test_dict\<lparr>d_name := ''Renamed''\<rparr>)
   \<and> fst (update_workout test_id \<lparr>u_name = Some ''Renamed'', u_splits = None\<rparr> [test_document, seeded_document]) = Inr (serialize_workout (Some (test_dict\<lparr>d_name := ''Renamed''\<rparr>)))
   \<and> snd (update_workout zero_id \<lparr>u_name = Some ''Renamed'', u_splits = None\<rparr> [test_document]) = [test_document]
   \<and> snd (update_workout test_id \<lparr>u_name = None, u_splits = Some (c_splits big_workout)\<rparr> [test_document]) = [test_document]
   \<and> status_code (fst (update_workout test_id \<lparr>u_name = None, u_splits = Some (c_splits big_workout)\<rparr> [test_document])) = 400"
proof -
  note a = test_oid_parsed
  note b = test_document_first
  note F = update_workout_frame[of test_id "\<lparr>u_name = Some ''Renamed'', u_splits = None\<rparr>" "[test_document, seeded_document]" test_oid test_dict]
  have n: "u_name \<lparr>u_name = Some ''Renamed'', u_splits = None\<rparr> \<noteq> None \<or> u_splits \<lparr>u_name = Some ''Renamed'', u_splits = None\<rparr> \<noteq> None"
    by simp
  have e: "case u_splits \<lparr>u_name = Some ''Renamed'', u_splits = None\<rparr> of None \<Rightarrow> True | Some s \<Rightarrow> bson_encodable s"
    by simp
  have s: "u_splits \<lparr>u_name = Some ''Renamed'', u_splits = None\<rparr> = None"
    by simp
  have o: "(1::nat) < length [test_document, seeded_document]"
    by simp
  have i: "ObjectId test_id \<noteq> Inr (doc_id ([test_document, seeded_document] ! 1))"
    using zero_oid_other by (simp add: a seeded_document_id)
  note f1 = F[THEN conjunct1]
  note f2 = F[THEN conjunct2, THEN conjunct1]
  note f3 = F[THEN conjunct2, THEN conjunct2, THEN conjunct1]
  note f5 = F[THEN conjunct2, THEN conjunct2, THEN conjunct2, THEN conjunct2, THEN conjunct1,
      THEN mp, OF s]
  note f6 = F[THEN conjunct2, THEN conjunct2, THEN conjunct2, THEN conjunct2, THEN conjunct2,
      THEN conjunct1]
  note f7 = F[THEN conjunct2, THEN conjunct2, THEN conjunct2, THEN conjunct2, THEN conjunct2,
      THEN conjunct2, THEN conjunct1, rule_format, OF o i]
  note f9 = F[THEN conjunct2, THEN conjunct2, THEN conjunct2, THEN conjunct2, THEN conjunct2,
      THEN conjunct2, THEN conjunct2, THEN conjunct2, THEN conjunct1, THEN mp,
      OF conjI[OF a conjI[OF b conjI[OF n e]]]]
  have f9': "find_one (by_id test_oid) (snd (update_workout test_id \<lparr>u_name = Some ''Renamed'', u_splits = None\<rparr> [test_document, seeded_document])) = Some (test_dict\<lparr>d_name := ''Renamed''\<rparr>)
      \<and> fst (update_workout test_id \<lparr>u_name = Some ''Renamed'', u_splits = None\<rparr> [test_document, seeded_document]) = Inr (serialize_workout (Some (test_dict\<lparr>d_name := ''Renamed''\<rparr>)))"
    using f9 by simp
  have u: "\<forall>oid'. ObjectId zero_id = Inr oid' \<longrightarrow> find_one (by_id oid') [test_document] = None"
    using zero_oid_other by (simp add: zero_oid_parsed find_one_fresh test_document_id)
  note g8 = update_workout_frame[of zero_id "\<lparr>u_name = Some ''Renamed'', u_splits = None\<rparr>" "[test_document]", THEN conjunct2,
      THEN conjunct2, THEN conjunct2, THEN conjunct2, THEN conjunct2, THEN conjunct2, THEN conjunct2,
      THEN conjunct1, THEN mp, OF u]
  have v: "\<not> (case u_splits \<lparr>u_name = None, u_splits = Some (c_splits big_workout)\<rparr> of None \<Rightarrow> True | Some s \<Rightarrow> bson_encodable s)"
    using big_workout_overflows by simp
  note h10 = update_workout_frame[of test_id "\<lparr>u_name = None, u_splits = Some (c_splits big_workout)\<rparr>" "[test_document]", THEN conjunct2,
      THEN conjunct2, THEN conjunct2, THEN conjunct2, THEN conjunct2, THEN conjunct2, THEN conjunct2,
      THEN conjunct2, THEN conjunct2, THEN mp, OF v]
  show ?thesis
    using a b f1 f2 f3 f5 f6 f7 f9' g8 h10 by blast
qed

subsection \<open>Seeding\<close>

text \<open>
  C4. The seeding routine inserts the catalog of four workouts when no predefined
  workout is stored and leaves the collection alone otherwise. So after the first boot,
  on a collection without predefined workouts, invoking the routine again any number of
  times changes nothing, and the predefined listing is the four seeded entries. The
  identifiers the store generates for the four documents are distinct and new.
\<close>

theorem seeding_idempotent:
  assumes "distinct [i1, i2, i3, i4]" and "set [i1, i2, i3, i4] \<inter> set (map doc_id db) = {}"
  shows "(count_documents (by_type predefined) db = 0 \<longrightarrow>
      initialize_predefined_workouts (t1, t2, t3, t4) (i1, i2, i3, i4) db =
        (None, db @ [bson_encode (with_id i1 (abc_classico t1)),
                     bson_encode (with_id i2 (abcde_avancado t2)),
                     bson_encode (with_id i3 (push_pull_legs t3)),
                     bson_encode (with_id i4 (upper_lower t4))])
      \<and> reinvoke later (snd (initialize_predefined_workouts (t1, t2, t3, t4) (i1, i2, i3, i4) db)) =
        (None, snd (initialize_predefined_workouts (t1, t2, t3, t4) (i1, i2, i3, i4) db))
      \<and> get_predefined_workouts
          (snd (reinvoke later (snd (initialize_predefined_workouts (t1, t2, t3, t4) (i1, i2, i3, i4) db)))) =
        [serialize_workout (Some (with_id i1 (abc_classico t1))),
         serialize_workout (Some (with_id i2 (abcde_avancado t2))),
         serialize_workout (Some (with_id i3 (push_pull_legs t3))),
         serialize_workout (Some (with_id i4 (upper_lower t4)))])
    \<and> (count_documents (by_type predefined) db \<noteq> 0 \<longrightarrow>
      initialize_predefined_workouts (t1, t2, t3, t4) (i1, i2, i3, i4) db = (None, db))"
proof (intro conjI impI)
  assume z: "count_documents (by_type predefined) db = 0"
  note s = initialize_seeds[OF z assms, of t1 t2 t3 t4]
  show "initialize_predefined_workouts (t1, t2, t3, t4) (i1, i2, i3, i4) db =
        (None, db @ [bson_encode (with_id i1 (abc_classico t1)),
                     bson_encode (with_id i2 (abcde_avancado t2)),
                     bson_encode (with_id i3 (push_pull_legs t3)),
                     bson_encode (with_id i4 (upper_lower t4))])"
    by (rule s)
  have r: "reinvoke later
        (db @ [bson_encode (with_id i1 (abc_classico t1)), bson_encode (with_id i2 (abcde_avancado t2)),
               bson_encode (with_id i3 (push_pull_legs t3)), bson_encode (with_id i4 (upper_lower t4))]) =
      (None, db @ [bson_encode (with_id i1 (abc_classico t1)), bson_encode (with_id i2 (abcde_avancado t2)),
                   bson_encode (with_id i3 (push_pull_legs t3)), bson_encode (with_id i4 (upper_lower t4))])"
    by (rule reinvoke_skip[OF seeded_count])
  show "reinvoke later (snd (initialize_predefined_workouts (t1, t2, t3, t4) (i1, i2, i3, i4) db)) =
        (None, snd (initialize_predefined_workouts (t1, t2, t3, t4) (i1, i2, i3, i4) db))"
    by (simp only: s snd_conv r)
  show "get_predefined_workouts
          (snd (reinvoke later (snd (initialize_predefined_workouts (t1, t2, t3, t4) (i1, i2, i3, i4) db)))) =
        [serialize_workout (Some (with_id i1 (abc_classico t1))),
         serialize_workout (Some (with_id i2 (abcde_avancado t2))),
         serialize_workout (Some (with_id i3 (push_pull_legs t3))),
         serialize_workout (Some (with_id i4 (upper_lower t4)))]"
    by (simp only: s snd_conv r seeded_listing[OF z])
next
  assume "count_documents (by_type predefined) db \<noteq> 0"
  then show "initialize_predefined_workouts (t1, t2, t3, t4) (i1, i2, i3, i4) db = (None, db)"
    by (rule initialize_skip)
qed

theorem seeding_idempotent_witness:
  "initialize_predefined_workouts (1, 2, 3, 4)
      (test_oid, replicate 24 0, replicate 24 1, replicate 24 2) [] =
     (None, [bson_encode (with_id test_oid (abc_classico 1)),
             bson_encode (with_id (replicate 24 0) (abcde_avancado 2)),
             bson_encode (with_id (replicate 24 1) (push_pull_legs 3)),
             bson_encode (with_id (replicate 24 2) (upper_lower 4))])
   \<and> reinvoke [((5, 6, 7, 8), (replicate 24 3, replicate 24 4, replicate 24 5, replicate 24 6))]
       (snd (initialize_predefined_workouts (1, 2, 3, 4)
          (test_oid, replicate 24 0, replicate 24 1, replicate 24 2) [])) =
     (None, snd (initialize_predefined_workouts (1, 2, 3, 4)
          (test_oid, replicate 24 0, replicate 24 1, replicate 24 2) []))
   \<and> get_predefined_workouts
       (snd (reinvoke [((5, 6, 7, 8), (replicate 24 3, replicate 24 4, replicate 24 5, replicate 24 6))]
          (snd (initialize_predefined_workouts (1, 2, 3, 4)
             (test_oid, replicate 24 0, replicate 24 1, replicate 24 2) [])))) =
     [serialize_workout (Some (with_id test_oid (abc_classico 1))),
      serialize_workout (Some (with_id (replicate 24 0) (abcde_avancado 2))),
      serialize_workout (Some (with_id (replicate 24 1) (push_pull_legs 3))),
      serialize_workout (Some (with_id (replicate 24 2) (upper_lower 4)))]
   \<and> initialize_predefined_workouts (5, 6, 7, 8)
      (replicate 24 3, replicate 24 4, replicate 24 5, replicate 24 6)
      [seeded_document] = (None, [seeded_document])"
proof -
  have d1: "distinct [test_oid, replicate 24 0, replicate 24 1, replicate 24 2]"
    by code_simp
  have f1: "set [test_oid, replicate 24 0, replicate 24 1, replicate 24 2] \<inter> set (map doc_id []) = {}"
    by simp
  have z1: "count_documents (by_type predefined) [] = 0"
    by (simp add: count_documents_def)
  have d2: "distinct [replicate 24 3, replicate 24 4, replicate 24 5, replicate 24 (6::nat)]"
    by code_simp
  have n2: "zero_oid \<notin> set [replicate 24 3, replicate 24 4, replicate 24 5, replicate 24 (6::nat)]"
    by code_simp
  have f2: "set [replicate 24 3, replicate 24 4, replicate 24 5, replicate 24 6]
      \<inter> set (map doc_id [seeded_document]) = {}"
    using n2 by (simp add: seeded_document_id)
  have z2: "count_documents (by_type predefined) [seeded_document] \<noteq> 0"
    by (simp add: count_documents_def by_type_def seeded_document_def bson_encode_fields
        with_id_fields catalog_types)
  note first_boot = seeding_idempotent[OF d1 f1, where ?t1.0 = 1 and ?t2.0 = 2 and ?t3.0 = 3 and ?t4.0 = 4
      and later = "[((5, 6, 7, 8), (replicate 24 3, replicate 24 4, replicate 24 5, replicate 24 6))]"]
  note later_boot = seeding_idempotent[OF d2 f2, where ?t1.0 = 5 and ?t2.0 = 6 and ?t3.0 = 7 and ?t4.0 = 8]
  note seeded = first_boot[THEN conjunct1, THEN mp, OF z1, unfolded append_Nil]
  note skipped = later_boot[THEN conjunct2, THEN mp, OF z2]
  show ?thesis
    using seeded skipped by blast
qed

subsection \<open>Creating\<close>

text \<open>
  C2. The claim: a create request whose name is the empty string, or whose type is not
  one of the two enum values, is rejected with 422 and stores nothing. The type is
  checked, the name is not: the request model declares \<^verbatim>\<open>name: str\<close> and nothing
  else looks at the name, so the request with the empty name, the type
  \<^verbatim>\<open>custom\<close> and no splits answers 200 and its document is stored.
\<close>

theorem create_empty_name_accepted:
  "status_code (fst (post_workouts \<lparr>b_name = Some [], b_type = Some ''custom'', b_splits = Some []\<rparr>
      0 test_oid [])) = 200
   \<and> snd (post_workouts \<lparr>b_name = Some [], b_type = Some ''custom'', b_splits = Some []\<rparr>
      0 test_oid []) =
     [\<lparr>d_name = [], d_type = custom, d_splits = [], d_createdAt = 0, doc_id = test_oid\<rparr>]"
  by code_simp

text \<open>
  C8. The claim: for every valid create request, creating the workout and fetching it by
  the returned identifier yields the submitted name, type and splits. The request of the
  concrete scenario with \<^verbatim>\<open>"sets": 9223372036854775808\<close> passes the request model,
  the driver cannot encode the integer, and the handler, which has no \<^verbatim>\<open>try\<close> block,
  answers 500 and stores nothing.
\<close>

theorem create_big_sets_500:
  "validate_WorkoutCreate big_body = Inr big_workout
   \<and> fst (post_workouts big_body 7 test_oid []) = Inl OverflowError
   \<and> status_code (fst (post_workouts big_body 7 test_oid [])) = 500
   \<and> snd (post_workouts big_body 7 test_oid []) = []"
  using big_body_valid big_workout_overflows
  by (simp add: post_workouts_def create_workout_def insert_one_def)

text \<open>
  C8, as amended. For every create request that the request model accepts and whose set
  counts are signed 64-bit integers, the create stores and returns the workout the
  request model made of the request: the submitted name, the submitted type, the
  submitted splits (an absent weight or notes reads as the empty string, absent
  exercises as the empty list) and the server's clock reading as creation timestamp;
  fetching by the returned identifier yields that same workout. The identifier the
  store generates is an \<^verbatim>\<open>ObjectId\<close> that no stored document has.
\<close>

theorem create_then_get:
  assumes "validate_WorkoutCreate body = Inr workout" and "bson_encodable (c_splits workout)"
    and "valid_oid new_id" and "new_id \<notin> set (map doc_id db)"
  shows "post_workouts body now new_id db =
      (Inr (Some \<lparr>w_id = Some (str_oid new_id), w_name = c_name workout, w_type = c_type workout,
                   w_splits = c_splits workout, w_createdAt = Some now\<rparr>),
       db @ [bson_encode \<lparr>d_name = c_name workout, d_type = c_type workout,
                          d_splits = c_splits workout, d_createdAt = now, doc_id = new_id\<rparr>])
    \<and> get_workout (str_oid new_id) (snd (post_workouts body now new_id db)) =
      Inr (Some \<lparr>w_id = Some (str_oid new_id), w_name = c_name workout, w_type = c_type workout,
                  w_splits = c_splits workout, w_createdAt = Some now\<rparr>)
    \<and> b_name body = Some (c_name workout)
    \<and> (\<exists>t. b_type body = Some t \<and> Literal_type t = Some (c_type workout))
    \<and> (\<exists>s. b_splits body = Some s \<and> validate_splits s = Some (c_splits workout))"
proof -
  let ?wd = "\<lparr>d_name = c_name workout, d_type = c_type workout, d_splits = c_splits workout,
               d_createdAt = now\<rparr>"
  have e: "bson_encodable (d_splits ?wd)"
    using assms(2) by simp
  have i: "insert_one new_id ?wd db = Inr (db @ [bson_encode (with_id new_id ?wd)])"
    using assms(4) e by (rule insert_one_fresh)
  have f: "find_one (by_id new_id) (db @ [bson_encode (with_id new_id ?wd)]) = Some (with_id new_id ?wd)"
    using assms(4) e by (rule find_one_inserted)
  have c: "post_workouts body now new_id db =
      (Inr (serialize_workout (Some (with_id new_id ?wd))), db @ [bson_encode (with_id new_id ?wd)])"
    using assms(1) i f by (simp add: post_workouts_def create_workout_def Let_def)
  have g: "get_workout (str_oid new_id) (db @ [bson_encode (with_id new_id ?wd)]) =
      Inr (serialize_workout (Some (with_id new_id ?wd)))"
    using ObjectId_str[OF assms(3)] f
    by (simp add: get_workout_def get_workout_try_def except_400_def)
  have v: "b_name body = Some (c_name workout)
    \<and> (\<exists>t. b_type body = Some t \<and> Literal_type t = Some (c_type workout))
    \<and> (\<exists>s. b_splits body = Some s \<and> validate_splits s = Some (c_splits workout))"
    using assms(1)
    by (auto simp: validate_WorkoutCreate_def split: option.splits)
  show ?thesis
    using c g v by (simp add: with_id_def)
qed

theorem create_then_get_witness:
  "validate_WorkoutCreate test_body = Inr test_workout
   \<and> post_workouts test_body 7 test_oid [] =
      (Inr (Some \<lparr>w_id = Some test_id, w_name = c_name test_workout, w_type = c_type test_workout,
                   w_splits = c_splits test_workout, w_createdAt = Some 7\<rparr>),
       [bson_encode \<lparr>d_name = c_name test_workout, d_type = c_type test_workout,
                     d_splits = c_splits test_workout, d_createdAt = 7, doc_id = test_oid\<rparr>])
   \<and> get_workout test_id (snd (post_workouts test_body 7 test_oid [])) =
      Inr (Some \<lparr>w_id = Some test_id, w_name = c_name test_workout, w_type = c_type test_workout,
                  w_splits = c_splits test_workout, w_createdAt = Some 7\<rparr>)
   \<and> b_name test_body = Some (c_name test_workout)"
proof -
  have n: "test_oid \<notin> set (map doc_id [])"
    by simp
  note t = create_then_get[OF test_body_valid test_workout_encodable test_oid_valid n, of 7,
      unfolded test_oid_str append_Nil]
  show ?thesis
    using test_body_valid t by blast
qed

subsection \<open>Deleting\<close>

text \<open>
  C7. The claim: deleting with a well-formed identifier that matches nothing fails with
  404, and after deleting a stored workout a fetch by the same identifier fails with
  NotFound. The delete does remove the document, but both 404 exceptions are raised
  inside a \<^verbatim>\<open>try\<close> block whose \<^verbatim>\<open>except Exception\<close> answers 400: the delete of a
  missing workout answers 400, and so does the fetch after a successful delete.
\<close>

theorem delete_missing_400:
  "status_code (fst (delete_workout test_id [])) = 400
   \<and> fst (delete_workout test_id []) = Inl (HTTPException 400 (Str not_found))
   \<and> status_code (fst (delete_workout test_id [test_document])) = 200
   \<and> snd (delete_workout test_id [test_document]) = []
   \<and> status_code (get_workout test_id (snd (delete_workout test_id [test_document]))) = 400
   \<and> get_workout test_id (snd (delete_workout test_id [test_document])) =
       Inl (HTTPException 400 (Str not_found))"
proof -
  have e: "delete_workout test_id [] = (Inl (HTTPException 400 (Str not_found)), [])"
    by code_simp
  have d: "delete_workout test_id [test_document] = (Inr deleted_message, [])"
    using test_document_found
    by (simp add: delete_workout_def delete_workout_try_def delete_one_def matched_Some
        test_oid_parsed except_400_def by_id_def test_document_id)
  have g: "get_workout test_id [] = Inl (HTTPException 400 (Str not_found))"
    by code_simp
  show ?thesis
    by (simp add: e d g)
qed

subsection \<open>Copying\<close>

text \<open>
  C3. Copying the stored workout \<open>W\<close> under the new name \<open>new_name\<close> stores and returns a
  new document of type custom with that name, the splits of \<open>W\<close> and the current clock
  reading as creation timestamp; its identifier differs from the one of \<open>W\<close>, and every
  document stored before, \<open>W\<close> among them, is unchanged. The identifier the store
  generates is an \<^verbatim>\<open>ObjectId\<close> that no stored document has.
\<close>

theorem copy_workout_new_document:
  assumes "ObjectId workout_id = Inr oid" and "find_one (by_id oid) db = Some W"
    and "valid_oid new_id" and "new_id \<notin> set (map doc_id db)"
  shows "copy_workout workout_id new_name now new_id db =
      (Inr (Some \<lparr>w_id = Some (str_oid new_id), w_name = new_name, w_type = custom,
                   w_splits = d_splits W, w_createdAt = Some now\<rparr>),
       db @ [bson_encode \<lparr>d_name = new_name, d_type = custom, d_splits = d_splits W,
                          d_createdAt = now, doc_id = new_id\<rparr>])
    \<and> str_oid new_id \<noteq> str_oid (doc_id W)
    \<and> find_one (by_id oid) (snd (copy_workout workout_id new_name now new_id db)) = Some W
    \<and> take (length db) (snd (copy_workout workout_id new_name now new_id db)) = db"
proof -
  note c = copy_workout_existing[OF assms(1) assms(2) assms(4), of new_name now]
  have w: "doc_id W = oid" and m: "oid \<in> set (map doc_id db)"
    using find_one_Some[OF assms(2)] by simp_all
  have "valid_oid (doc_id W)"
    using ObjectId_valid[OF assms(1)] w by simp
  moreover have "new_id \<noteq> doc_id W"
    using assms(4) m w by auto
  ultimately have d: "str_oid new_id \<noteq> str_oid (doc_id W)"
    using str_oid_inj[OF assms(3)] by blast
  show ?thesis
    using c d find_one_kept[OF assms(2)] by simp
qed

theorem copy_workout_new_document_witness:
  "ObjectId test_id = Inr test_oid
   \<and> find_one (by_id test_oid) [test_document] = Some test_dict
   \<and> copy_workout test_id ''X'' 9 zero_oid [test_document] =
      (Inr (Some \<lparr>w_id = Some (str_oid zero_oid), w_name = ''X'', w_type = custom,
                   w_splits = d_splits test_dict, w_createdAt = Some 9\<rparr>),
       [test_document] @ [bson_encode \<lparr>d_name = ''X'', d_type = custom, d_splits = d_splits test_dict,
               d_createdAt = 9, doc_id = zero_oid\<rparr>])
   \<and> str_oid zero_oid \<noteq> str_oid (doc_id test_dict)
   \<and> find_one (by_id test_oid) (snd (copy_workout test_id ''X'' 9 zero_oid [test_document]))
       = Some test_dict"
proof -
  have n: "zero_oid \<notin> set (map doc_id [test_document])"
    using zero_oid_other by (simp add: test_document_id)
  show ?thesis
    using test_oid_parsed test_document_found
      copy_workout_new_document[OF test_oid_parsed test_document_found zero_oid_valid n, of "''X''" 9]
    by blast
qed

text \<open>
  C10. Copying does not look at the type of the source: whatever the type of the stored
  workout \<open>W\<close>, the copy succeeds with status 200, the collection gains exactly one
  document, of type custom, with the new name and the splits of \<open>W\<close>, and that document
  is the workout returned; a fetch by its identifier finds it.
\<close>

theorem copy_workout_any_type:
  assumes "ObjectId workout_id = Inr oid" and "find_one (by_id oid) db = Some W"
    and "new_id \<notin> set (map doc_id db)"
  shows "status_code (fst (copy_workout workout_id new_name now new_id db)) = 200
    \<and> fst (copy_workout workout_id new_name now new_id db) =
        Inr (Some \<lparr>w_id = Some (str_oid new_id), w_name = new_name, w_type = custom,
                    w_splits = d_splits W, w_createdAt = Some now\<rparr>)
    \<and> snd (copy_workout workout_id new_name now new_id db) =
        db @ [bson_encode \<lparr>d_name = new_name, d_type = custom, d_splits = d_splits W,
                           d_createdAt = now, doc_id = new_id\<rparr>]
    \<and> find_one (by_id new_id) (snd (copy_workout workout_id new_name now new_id db)) =
        Some \<lparr>d_name = new_name, d_type = custom, d_splits = d_splits W,
              d_createdAt = now, doc_id = new_id\<rparr>
    \<and> find_one (by_id oid) (snd (copy_workout workout_id new_name now new_id db)) = Some W"
proof -
  let ?wd = "\<lparr>d_name = new_name, d_type = custom, d_splits = d_splits W, d_createdAt = now\<rparr>"
  note c = copy_workout_existing[OF assms, of new_name now]
  have e: "bson_encodable (d_splits ?wd)"
    using find_one_decoded[OF assms(2)] by simp
  have f: "find_one (by_id new_id) (db @ [bson_encode (with_id new_id ?wd)]) = Some (with_id new_id ?wd)"
    using assms(3) e by (rule find_one_inserted)
  show ?thesis
    using c f find_one_kept[OF assms(2)] by (simp add: with_id_def)
qed

theorem copy_workout_any_type_witness:
  "d_type test_dict = custom
   \<and> status_code (fst (copy_workout test_id ''X'' 9 zero_oid [test_document])) = 200
   \<and> fst (copy_workout test_id ''X'' 9 zero_oid [test_document]) =
       Inr (Some \<lparr>w_id = Some (str_oid zero_oid), w_name = ''X'', w_type = custom,
                   w_splits = d_splits (test_dict), w_createdAt = Some 9\<rparr>)
   \<and> snd (copy_workout test_id ''X'' 9 zero_oid [test_document]) =
       [test_document] @ [bson_encode \<lparr>d_name = ''X'', d_type = custom, d_splits = d_splits (test_dict),
                          d_createdAt = 9, doc_id = zero_oid\<rparr>]
   \<and> find_one (by_id zero_oid) (snd (copy_workout test_id ''X'' 9 zero_oid [test_document])) =
       Some \<lparr>d_name = ''X'', d_type = custom, d_splits = d_splits (test_dict),
             d_createdAt = 9, doc_id = zero_oid\<rparr>
   \<and> d_type (with_id zero_oid (upper_lower 4)) = predefined
   \<and> status_code (fst (copy_workout zero_id ''X'' 9 test_oid [seeded_document])) = 200
   \<and> fst (copy_workout zero_id ''X'' 9 test_oid [seeded_document]) =
       Inr (Some \<lparr>w_id = Some (str_oid test_oid), w_name = ''X'', w_type = custom,
                   w_splits = d_splits (with_id zero_oid (upper_lower 4)), w_createdAt = Some 9\<rparr>)
   \<and> snd (copy_workout zero_id ''X'' 9 test_oid [seeded_document]) =
       [seeded_document] @ [bson_encode \<lparr>d_name = ''X'', d_type = custom, d_splits = d_splits (with_id zero_oid (upper_lower 4)),
                          d_createdAt = 9, doc_id = test_oid\<rparr>]
   \<and> find_one (by_id test_oid) (snd (copy_workout zero_id ''X'' 9 test_oid [seeded_document])) =
       Some \<lparr>d_name = ''X'', d_type = custom, d_splits = d_splits (with_id zero_oid (upper_lower 4)),
             d_createdAt = 9, doc_id = test_oid\<rparr>"
proof -
  have n: "zero_oid \<notin> set (map doc_id [test_document])"
    using zero_oid_other by (simp add: test_document_id)
  have n': "test_oid \<notin> set (map doc_id [seeded_document])"
    using zero_oid_other by (simp add: seeded_document_id)
  have t: "d_type test_dict = custom"
    by (simp add: test_dict_def test_workout_def)
  have t': "d_type (with_id zero_oid (upper_lower 4)) = predefined"
    by (simp add: with_id_fields catalog_types)
  show ?thesis
    using t t'
      copy_workout_any_type[OF test_oid_parsed test_document_found n, of "''X''" 9]
      copy_workout_any_type[OF zero_oid_parsed seeded_document_found n', of "''X''" 9]
    by blast
qed


end
